theory Spec2Isabelle
  imports Main
begin

section \<open>Playback state of the algorithm visualizer\<close>

text \<open>
  The component \<open>AlgorithmVisualizer\<close> of \<open>algoVisualizer.tsx\<close> keeps two pieces of
  state, \<open>currentStepIndex\<close> (initially \<open>0\<close>) and \<open>isPlaying\<close> (initially \<open>false\<close>).
  The index is a JavaScript number that only ever holds integers; it is compared with
  \<open>steps.length - 1\<close>, which is \<open>-1\<close> for an empty array, so it is modelled as an
  \<open>int\<close> and the array length is converted explicitly. The steps are opaque to the
  component, hence the type variable.
\<close>

record playback =
  currentStepIndex :: int
  isPlaying :: bool

definition initialState :: playback where
  "initialState = \<lparr>currentStepIndex = 0, isPlaying = False\<rparr>"

text \<open>
  \<^verbatim>\<open>
  const nextStep = () => {
      if (currentStepIndex < steps.length - 1) {
          setCurrentStepIndex(currentStepIndex + 1)
      } else {
          setIsPlaying(false)
      }
  }
  \<close>
\<close>

definition nextStep :: "'a list \<Rightarrow> playback \<Rightarrow> playback" where
  "nextStep steps s =
     (if currentStepIndex s < int (length steps) - 1
      then s\<lparr>currentStepIndex := currentStepIndex s + 1\<rparr>
      else s\<lparr>isPlaying := False\<rparr>)"

text \<open>
  \<^verbatim>\<open>
  const prevStep = () => {
      if (currentStepIndex > 0) {
          setCurrentStepIndex(currentStepIndex - 1)
      }
  }
  \<close>
\<close>

definition prevStep :: "playback \<Rightarrow> playback" where
  "prevStep s =
     (if currentStepIndex s > 0
      then s\<lparr>currentStepIndex := currentStepIndex s - 1\<rparr>
      else s)"

text \<open>
  \<^verbatim>\<open>
  const restart = () => {
      setCurrentStepIndex(0)
      setIsPlaying(false)
  }
  \<close>
\<close>

definition restart :: "playback \<Rightarrow> playback" where
  "restart s = s\<lparr>currentStepIndex := 0, isPlaying := False\<rparr>"

text \<open>
  The handler of the Play/Pause button is the anonymous function
  \<^verbatim>\<open>() => setIsPlaying(!isPlaying)\<close>.
\<close>

definition togglePlay :: "playback \<Rightarrow> playback" where
  "togglePlay s = s\<lparr>isPlaying := \<not> isPlaying s\<rparr>"

section \<open>Autoplay\<close>

text \<open>
  \<^verbatim>\<open>
  useEffect(() => {
      let interval: NodeJS.Timeout | null = null
      if (isPlaying) {
          interval = setInterval(() => { nextStep() }, 1000)
          return () => { if (interval) clearInterval(interval) }
      }
  }, [isPlaying, currentStepIndex])
  \<close>
  The effect runs again after every change of either state variable, and the cleanup
  of the previous run clears the previous interval first. So after the effect has run
  for a state there is one interval of period 1000 when \<open>isPlaying\<close> holds and none
  otherwise, and the \<open>nextStep\<close> it calls is the one of the current state.
  \<open>useEffect_interval\<close> gives the period of the armed interval, \<open>timerTick\<close> what
  happens when 1000 time units elapse (nothing where no interval is armed).
\<close>

definition useEffect_interval :: "playback \<Rightarrow> nat option" where
  "useEffect_interval s = (if isPlaying s then Some 1000 else None)"

definition timerTick :: "'a list \<Rightarrow> playback \<Rightarrow> playback" where
  "timerTick steps s =
     (case useEffect_interval s of
        Some period \<Rightarrow> nextStep steps s
      | None \<Rightarrow> s)"

fun ticks :: "'a list \<Rightarrow> nat \<Rightarrow> playback \<Rightarrow> playback" where
  "ticks steps 0 s = s"
| "ticks steps (Suc n) s = ticks steps n (timerTick steps s)"

section \<open>Controls and events\<close>

text \<open>
  The four buttons, with their \<open>onClick\<close> handlers and \<open>disabled\<close> attributes:
  \<^verbatim>\<open>
  <button onClick={() => setIsPlaying(!isPlaying)} ...>
  <button onClick={nextStep} disabled={currentStepIndex === steps.length - 1} ...>
  <button onClick={prevStep} disabled={currentStepIndex === 0} ...>
  <button onClick={restart} ...>
  \<close>
  A disabled button does not deliver its click.
\<close>

datatype control = PlayPauseButton | NextButton | PreviousButton | RestartButton

definition onClick :: "'a list \<Rightarrow> control \<Rightarrow> playback \<Rightarrow> playback" where
  "onClick steps b s =
     (case b of
        PlayPauseButton \<Rightarrow> togglePlay s
      | NextButton \<Rightarrow> nextStep steps s
      | PreviousButton \<Rightarrow> prevStep s
      | RestartButton \<Rightarrow> restart s)"

definition disabled :: "'a list \<Rightarrow> control \<Rightarrow> playback \<Rightarrow> bool" where
  "disabled steps b s =
     (case b of
        PlayPauseButton \<Rightarrow> False
      | NextButton \<Rightarrow> currentStepIndex s = int (length steps) - 1
      | PreviousButton \<Rightarrow> currentStepIndex s = 0
      | RestartButton \<Rightarrow> False)"

datatype event = Click control | Tick

definition dispatch :: "'a list \<Rightarrow> event \<Rightarrow> playback \<Rightarrow> playback" where
  "dispatch steps ev s =
     (case ev of
        Click b \<Rightarrow> (if disabled steps b s then s else onClick steps b s)
      | Tick \<Rightarrow> timerTick steps s)"

text \<open>The state after a sequence of events, oldest first.\<close>

fun run :: "'a list \<Rightarrow> event list \<Rightarrow> playback \<Rightarrow> playback" where
  "run steps [] s = s"
| "run steps (ev # evs) s = run steps evs (dispatch steps ev s)"

text \<open>The range of the cursor, and the read \<open>steps[currentStepIndex]\<close>, which is
  \<open>undefined\<close> (here \<open>None\<close>) outside the array.\<close>

definition cursor_inv :: "'a list \<Rightarrow> playback \<Rightarrow> bool" where
  "cursor_inv steps s \<longleftrightarrow>
     0 \<le> currentStepIndex s \<and> currentStepIndex s \<le> int (length steps) - 1"

definition stepAt :: "'a list \<Rightarrow> int \<Rightarrow> 'a option" where
  "stepAt steps i =
     (if 0 \<le> i \<and> i < int (length steps) then Some (steps ! nat i) else None)"

section \<open>The metadata table\<close>

text \<open>
  \<open>algorithmInfo\<close> is an object literal with nine own properties. Their descriptions
  are template literals that run over several source lines, so each holds the line
  breaks and the indentation of the source.
\<close>

record algorithm_info =
  description :: string
  timeComplexity :: string
  spaceComplexity :: string

definition nl :: string where
  "nl = [CHR 0x0A]"

definition algorithmInfo :: "(string \<times> algorithm_info) list" where
  "algorithmInfo =
   [
    (''Linear Search'',
      \<lparr>description =
         ''Linear Search scans each element of the array '' @ nl @
         ''        one by one until the target value is found. It works for '' @ nl @
         ''        both sorted and unsorted arrays.'',
       timeComplexity = ''0(n)'',
       spaceComplexity = ''0(1)''\<rparr>),
    (''Binary Search'',
      \<lparr>description =
         ''Binary Search works by repeatedly dividing a '' @ nl @
         ''        sorted array in half and comparing the middle element with'' @ nl @
         ''        the target value. If the target is smaller, the left half '' @ nl @
         ''        is considered; if larger, the right half is considered.'',
       timeComplexity = ''0(log n)'',
       spaceComplexity = ''0(1)''\<rparr>),
    (''Depth-First Search'',
      \<lparr>description =
         ''Depth-First Search (DFS) explores as far as '' @ nl @
         ''        possible along a branch before backtracking. It's commonly '' @ nl @
         ''        used for tree and graph traversals.'',
       timeComplexity = ''0(V + E) (V: vertices, E: edges)'',
       spaceComplexity = ''0(V) for recursive DFS due to the call stack''\<rparr>),
    (''Breadth-First Search'',
      \<lparr>description =
         ''Breadth-First Search (BFS) explores all the neighbor '' @ nl @
         ''        nodes at the present depth before moving on to nodes at the next depth '' @ nl @
         ''        level. It's often used for shortest path problems in unweighted graphs.'',
       timeComplexity = ''0(V + E) (V: vertices, E: edges)'',
       spaceComplexity = ''0(V) for storing nodes in the queue''\<rparr>),
    (''Bubble Sort'',
      \<lparr>description =
         ''Bubble Sort compares adjacent elements in an array and '' @ nl @
         ''        swaps them if they are in the wrong order. It repeats this process '' @ nl @
         ''        until the array is sorted.'',
       timeComplexity = ''0(n^2)'',
       spaceComplexity = ''0(1)''\<rparr>),
    (''Selection Sort'',
      \<lparr>description =
         ''Selection Sort repeatedly finds the minimum element from '' @ nl @
         ''        the unsorted part of the array and swaps it with the first unsorted element, '' @ nl @
         ''        moving the boundary of the sorted part.'',
       timeComplexity = ''0(n^2)'',
       spaceComplexity = ''0(1)''\<rparr>),
    (''Insertion Sort'',
      \<lparr>description =
         ''Insertion Sort builds the sorted array one element at a time '' @ nl @
         ''        by picking elements and inserting them into their correct position in the '' @ nl @
         ''        already sorted part.'',
       timeComplexity = ''0(n^2)'',
       spaceComplexity = ''0(1)''\<rparr>),
    (''Merge Sort'',
      \<lparr>description =
         ''Merge Sort divides the array into two halves, '' @ nl @
         ''        recursively sorts each half, and then merges the two halves '' @ nl @
         ''        back together in sorted order.'',
       timeComplexity = ''0(n log n)'',
       spaceComplexity = ''0(n) due to the extra space for the temporary arrays used during merging''\<rparr>),
    (''Quick Sort'',
      \<lparr>description =
         ''Quick Sort picks a pivot element, partitions the array around the pivot, '' @ nl @
         ''        and recursively sorts the partitions. It works efficiently in average cases but can '' @ nl @
         ''        degrade in performance in certain cases.'',
       timeComplexity = ''0(n log n) (average), 0(n^2) (worst case)'',
       spaceComplexity = ''0(log n) for the recursion stack (best case), 0(n) (worst case)''\<rparr>)]"

text \<open>
  \<^verbatim>\<open>const selectedAlgo = algorithmInfo[algorithm]\<close>

  The read is a JavaScript property access on an ordinary object. It finds an own
  property first and then follows the prototype chain, which for an object literal is
  \<open>Object.prototype\<close>; only a name found in neither gives \<open>undefined\<close>.
  \<open>Object_prototype\<close> lists the properties that ECMAScript defines on
  \<open>Object.prototype\<close> (Annex B included). Each of them holds a function, or for
  \<open>__proto__\<close> the prototype object itself: a truthy value that has none of the
  properties \<open>description\<close>, \<open>timeComplexity\<close>, \<open>spaceComplexity\<close>.
\<close>

datatype js_value = Entry algorithm_info | Inherited | Undefined

definition Object_prototype :: "string list" where
  "Object_prototype =
     [''constructor'', ''hasOwnProperty'', ''isPrototypeOf'', ''propertyIsEnumerable'',
      ''toLocaleString'', ''toString'', ''valueOf'', ''__proto__'',
      ''__defineGetter__'', ''__defineSetter__'', ''__lookupGetter__'',
      ''__lookupSetter__'']"

definition selectedAlgo :: "string \<Rightarrow> js_value" where
  "selectedAlgo algorithm =
     (case map_of algorithmInfo algorithm of
        Some info \<Rightarrow> Entry info
      | None \<Rightarrow> (if algorithm \<in> set Object_prototype then Inherited else Undefined))"

fun truthy :: "js_value \<Rightarrow> bool" where
  "truthy (Entry info) = True"
| "truthy Inherited = True"
| "truthy Undefined = False"

section \<open>Rendering\<close>

text \<open>
  The rendered tree, without the \<open>className\<close> attributes. \<open>Empty\<close> is a child that
  React renders as nothing (\<open>undefined\<close> or \<open>false\<close>), \<open>Number\<close> a numeric child,
  \<open>Rendered\<close> what the caller's \<open>renderStep\<close> returned. A button carries its control
  (which fixes its handler) and its \<open>disabled\<close> attribute.
\<close>

datatype ('n, 'e) jsx =
    Text string
  | Number 'n
  | Empty
  | Rendered 'e
  | Element string "('n, 'e) jsx list"
  | Button control bool "('n, 'e) jsx list"

datatype js_error = TypeError

text \<open>
  A property read from the looked-up value, as in \<open>{selectedAlgo.description}\<close>: the
  string of a table entry, \<open>undefined\<close> on an inherited value, and a \<open>TypeError\<close>
  on \<open>undefined\<close>.
\<close>

fun getField :: "(algorithm_info \<Rightarrow> string) \<Rightarrow> js_value \<Rightarrow> js_error + ('n, 'e) jsx" where
  "getField f (Entry info) = Inr (Text (f info))"
| "getField f Inherited = Inr Empty"
| "getField f Undefined = Inl TypeError"

definition metadataBlock :: "js_value \<Rightarrow> js_error + ('n, 'e) jsx" where
  "metadataBlock v =
     (case getField description v of
        Inl e \<Rightarrow> Inl e
      | Inr d \<Rightarrow>
     (case getField timeComplexity v of
        Inl e \<Rightarrow> Inl e
      | Inr t \<Rightarrow>
     (case getField spaceComplexity v of
        Inl e \<Rightarrow> Inl e
      | Inr sp \<Rightarrow>
          Inr (Element ''div''
                [Element ''p'' [Text ''Description:''],
                 Element ''p'' [d],
                 Element ''p'' [Text ''Time Complexity:''],
                 Element ''p'' [t],
                 Element ''p'' [Text ''Space Complexity:''],
                 Element ''p'' [sp]]))))"

definition fallbackPrompt :: "('n, 'e) jsx" where
  "fallbackPrompt = Element ''p'' [Text ''Select an algorithm to visualize.'']"

definition infoBlock :: "string \<Rightarrow> js_error + ('n, 'e) jsx" where
  "infoBlock algorithm =
     (if truthy (selectedAlgo algorithm)
      then metadataBlock (selectedAlgo algorithm)
      else Inr fallbackPrompt)"

text \<open>
  \<^verbatim>\<open>
  {(algorithm === "Linear Search" || algorithm === "Binary Search") && (
      <p ...>Target: {target}</p>
  )}
  \<close>
  The optional \<open>target\<close> is \<open>None\<close> when the caller passed none.
\<close>

definition targetLine :: "string \<Rightarrow> 'n option \<Rightarrow> ('n, 'e) jsx" where
  "targetLine algorithm target =
     (if algorithm = ''Linear Search'' \<or> algorithm = ''Binary Search''
      then Element ''p''
             [Text ''Target: '', (case target of Some t \<Rightarrow> Number t | None \<Rightarrow> Empty)]
      else Empty)"

definition controls :: "'a list \<Rightarrow> playback \<Rightarrow> ('n, 'e) jsx" where
  "controls steps s =
     Element ''div''
       [Button PlayPauseButton False [Text (if isPlaying s then ''Pause'' else ''Play'')],
        Button NextButton (currentStepIndex s = int (length steps) - 1) [Text ''Next''],
        Button PreviousButton (currentStepIndex s = 0) [Text ''Previous''],
        Button RestartButton False [Text ''Restart'']]"

definition render ::
  "string \<Rightarrow> 'a list \<Rightarrow> 'n option \<Rightarrow> ('a option \<Rightarrow> int \<Rightarrow> nat \<Rightarrow> 'e) \<Rightarrow> playback
     \<Rightarrow> js_error + ('n, 'e) jsx" where
  "render algorithm steps target renderStep s =
     (case infoBlock algorithm of
        Inl e \<Rightarrow> Inl e
      | Inr info \<Rightarrow>
          Inr (Element ''div''
                [Element ''h2'' [Text ''Visualization for '', Text algorithm],
                 Element ''div'' [info],
                 targetLine algorithm target,
                 Element ''div''
                   [Rendered (renderStep (stepAt steps (currentStepIndex s))
                                (currentStepIndex s) (length steps))],
                 controls steps s]))"

text \<open>Reading a rendered tree: all its nodes, the target line, the buttons.\<close>

fun nodes :: "('n, 'e) jsx \<Rightarrow> ('n, 'e) jsx list" where
  "nodes (Element tag cs) = Element tag cs # concat (map nodes cs)"
| "nodes (Button b d cs) = Button b d cs # concat (map nodes cs)"
| "nodes n = [n]"

fun isTargetLine :: "('n, 'e) jsx \<Rightarrow> bool" where
  "isTargetLine (Element tag [Text label, value]) = (tag = ''p'' \<and> label = ''Target: '')"
| "isTargetLine n = False"

fun disabledOf :: "control \<Rightarrow> ('n, 'e) jsx \<Rightarrow> bool list" where
  "disabledOf b (Button b' d cs) = (if b' = b then [d] else [])"
| "disabledOf b n = []"

definition buttonStates :: "control \<Rightarrow> ('n, 'e) jsx \<Rightarrow> bool list" where
  "buttonStates b view = concat (map (disabledOf b) (nodes view))"

section \<open>The step operations\<close>

text \<open>
  Claim C7. \<open>restart\<close> always yields cursor \<open>0\<close> and \<open>isPlaying = false\<close>, whatever the
  cursor and the playing flag were before.
\<close>

theorem restart_resets:
  "currentStepIndex (restart s) = 0 \<and> isPlaying (restart s) = False
   \<and> restart s = initialState"
  by (simp add: restart_def initialState_def)

text \<open>
  Claim C3. \<open>nextStep\<close> below the last index adds exactly one to the cursor and keeps
  \<open>isPlaying\<close>; at the last index while playing it clears \<open>isPlaying\<close> and keeps the
  cursor; at the last index while not playing it changes nothing.
\<close>

theorem nextStep_spec:
  "(currentStepIndex s < int (length steps) - 1 \<longrightarrow>
      currentStepIndex (nextStep steps s) = currentStepIndex s + 1
      \<and> isPlaying (nextStep steps s) = isPlaying s)
   \<and> (currentStepIndex s = int (length steps) - 1 \<and> isPlaying s \<longrightarrow>
      isPlaying (nextStep steps s) = False
      \<and> currentStepIndex (nextStep steps s) = currentStepIndex s)
   \<and> (currentStepIndex s = int (length steps) - 1 \<and> \<not> isPlaying s \<longrightarrow>
      nextStep steps s = s)"
  by (simp add: nextStep_def)

theorem nextStep_spec_witness:
  "((1::int) < int (length ''abcde'') - 1
      \<and> nextStep ''abcde'' \<lparr>currentStepIndex = 1, isPlaying = True\<rparr>
          = \<lparr>currentStepIndex = 2, isPlaying = True\<rparr>)
   \<and> ((4::int) = int (length ''abcde'') - 1
      \<and> nextStep ''abcde'' \<lparr>currentStepIndex = 4, isPlaying = True\<rparr>
          = \<lparr>currentStepIndex = 4, isPlaying = False\<rparr>)
   \<and> ((4::int) = int (length ''abcde'') - 1
      \<and> nextStep ''abcde'' \<lparr>currentStepIndex = 4, isPlaying = False\<rparr>
          = \<lparr>currentStepIndex = 4, isPlaying = False\<rparr>)"
  using nextStep_spec [of "\<lparr>currentStepIndex = 1, isPlaying = True\<rparr>" "''abcde''"]
    nextStep_spec [of "\<lparr>currentStepIndex = 4, isPlaying = True\<rparr>" "''abcde''"]
    nextStep_spec [of "\<lparr>currentStepIndex = 4, isPlaying = False\<rparr>" "''abcde''"]
  by simp

text \<open>
  Claim C6. \<open>prevStep\<close> from a cursor above \<open>0\<close> subtracts exactly one and keeps
  \<open>isPlaying\<close>; at cursor \<open>0\<close> it changes nothing.
\<close>

theorem prevStep_spec:
  "(currentStepIndex s > 0 \<longrightarrow>
      currentStepIndex (prevStep s) = currentStepIndex s - 1
      \<and> isPlaying (prevStep s) = isPlaying s)
   \<and> (currentStepIndex s = 0 \<longrightarrow> prevStep s = s)"
  by (simp add: prevStep_def)

theorem prevStep_spec_witness:
  "((3::int) > 0
      \<and> prevStep \<lparr>currentStepIndex = 3, isPlaying = True\<rparr>
          = \<lparr>currentStepIndex = 2, isPlaying = True\<rparr>)
   \<and> prevStep \<lparr>currentStepIndex = 0, isPlaying = True\<rparr>
          = \<lparr>currentStepIndex = 0, isPlaying = True\<rparr>"
  using prevStep_spec [of "\<lparr>currentStepIndex = 3, isPlaying = True\<rparr>"]
    prevStep_spec [of "\<lparr>currentStepIndex = 0, isPlaying = True\<rparr>"]
  by simp

text \<open>
  Claim C10. For a non-empty step sequence and a cursor between \<open>1\<close> and the last
  index, \<open>prevStep\<close> followed by \<open>nextStep\<close> gives back the state it started from,
  cursor and playing flag alike.
\<close>

theorem prevStep_nextStep_inverse:
  "steps \<noteq> [] \<Longrightarrow> 1 \<le> currentStepIndex s
    \<Longrightarrow> currentStepIndex s \<le> int (length steps) - 1
    \<Longrightarrow> nextStep steps (prevStep s) = s"
  by (simp add: nextStep_def prevStep_def)

theorem prevStep_nextStep_inverse_witness:
  "''abcde'' \<noteq> [] \<and> (1::int) \<le> 4 \<and> (4::int) \<le> int (length ''abcde'') - 1
   \<and> nextStep ''abcde'' (prevStep \<lparr>currentStepIndex = 4, isPlaying = True\<rparr>)
        = \<lparr>currentStepIndex = 4, isPlaying = True\<rparr>"
  using prevStep_nextStep_inverse
          [of "''abcde''" "\<lparr>currentStepIndex = 4, isPlaying = True\<rparr>"]
  by simp

section \<open>The cursor stays inside the step sequence\<close>

lemma cursor_inv_initialState: "steps \<noteq> [] \<Longrightarrow> cursor_inv steps initialState"
  by (cases steps) (simp_all add: cursor_inv_def initialState_def)

lemma cursor_inv_nextStep: "cursor_inv steps s \<Longrightarrow> cursor_inv steps (nextStep steps s)"
  by (simp add: cursor_inv_def nextStep_def)

lemma cursor_inv_prevStep: "cursor_inv steps s \<Longrightarrow> cursor_inv steps (prevStep s)"
  by (simp add: cursor_inv_def prevStep_def)

lemma cursor_inv_restart: "steps \<noteq> [] \<Longrightarrow> cursor_inv steps (restart s)"
  by (cases steps) (simp_all add: cursor_inv_def restart_def)

lemma cursor_inv_togglePlay: "cursor_inv steps s \<Longrightarrow> cursor_inv steps (togglePlay s)"
  by (simp add: cursor_inv_def togglePlay_def)

lemma cursor_inv_timerTick: "cursor_inv steps s \<Longrightarrow> cursor_inv steps (timerTick steps s)"
  by (simp add: timerTick_def useEffect_interval_def cursor_inv_nextStep)

lemma cursor_inv_dispatch:
  assumes "steps \<noteq> []" and "cursor_inv steps s"
  shows "cursor_inv steps (dispatch steps ev s)"
proof (cases ev)
  case (Click b)
  then show ?thesis
    using assms
    by (cases b)
      (simp_all add: dispatch_def onClick_def cursor_inv_nextStep cursor_inv_prevStep
         cursor_inv_restart cursor_inv_togglePlay)
next
  case Tick
  then show ?thesis
    using assms by (simp add: dispatch_def cursor_inv_timerTick)
qed

lemma cursor_inv_run:
  "steps \<noteq> [] \<Longrightarrow> cursor_inv steps s \<Longrightarrow> cursor_inv steps (run steps evs s)"
  by (induction evs arbitrary: s) (simp_all add: cursor_inv_dispatch)

lemma cursor_inv_stepAt:
  "cursor_inv steps s \<Longrightarrow>
     stepAt steps (currentStepIndex s) = Some (steps ! nat (currentStepIndex s))"
  by (simp add: cursor_inv_def stepAt_def)

text \<open>
  Claim C2. For a non-empty step sequence, every state reached from the initial state
  by button clicks and timer ticks has its cursor between \<open>0\<close> and \<open>length - 1\<close>, so
  the read \<open>steps[currentStepIndex]\<close> finds an element there; and each of
  \<open>nextStep\<close>, \<open>prevStep\<close>, \<open>restart\<close>, the play toggle and the timer tick keeps the
  cursor in that range. The operations are total functions on the state: the source
  has no failing branch in any of them.
\<close>

theorem cursor_in_bounds:
  assumes "steps \<noteq> []"
  shows "cursor_inv steps (run steps evs initialState)
    \<and> stepAt steps (currentStepIndex (run steps evs initialState)) \<noteq> None
    \<and> (cursor_inv steps s \<longrightarrow>
          cursor_inv steps (nextStep steps s) \<and> cursor_inv steps (prevStep s)
          \<and> cursor_inv steps (restart s) \<and> cursor_inv steps (togglePlay s)
          \<and> cursor_inv steps (timerTick steps s))"
  using assms
  by (simp add: cursor_inv_run cursor_inv_initialState cursor_inv_stepAt
      cursor_inv_nextStep cursor_inv_prevStep cursor_inv_restart cursor_inv_togglePlay
      cursor_inv_timerTick)

theorem cursor_in_bounds_witness:
  "''abc'' \<noteq> []
   \<and> cursor_inv ''abc'' \<lparr>currentStepIndex = 2, isPlaying = True\<rparr>
   \<and> run ''abc'' [Click PlayPauseButton, Tick, Tick, Tick, Click NextButton,
        Click PreviousButton, Click NextButton, Click NextButton] initialState
       = \<lparr>currentStepIndex = 2, isPlaying = False\<rparr>
   \<and> cursor_inv ''abc'' (run ''abc'' [Click PlayPauseButton, Tick, Tick, Tick,
        Click NextButton, Click PreviousButton, Click NextButton, Click NextButton]
        initialState)
   \<and> stepAt ''abc'' (currentStepIndex (run ''abc'' [Click PlayPauseButton, Tick, Tick, Tick,
        Click NextButton, Click PreviousButton, Click NextButton, Click NextButton]
        initialState)) = Some CHR ''c''
   \<and> cursor_inv ''abc'' (nextStep ''abc'' \<lparr>currentStepIndex = 2, isPlaying = True\<rparr>)
   \<and> cursor_inv ''abc'' (prevStep \<lparr>currentStepIndex = 2, isPlaying = True\<rparr>)
   \<and> cursor_inv ''abc'' (restart \<lparr>currentStepIndex = 2, isPlaying = True\<rparr>)
   \<and> cursor_inv ''abc'' (togglePlay \<lparr>currentStepIndex = 2, isPlaying = True\<rparr>)
   \<and> cursor_inv ''abc'' (timerTick ''abc'' \<lparr>currentStepIndex = 2, isPlaying = True\<rparr>)"
  using cursor_in_bounds [of "''abc''"
      "[Click PlayPauseButton, Tick, Tick, Tick, Click NextButton,
        Click PreviousButton, Click NextButton, Click NextButton]"
      "\<lparr>currentStepIndex = 2, isPlaying = True\<rparr>"]
  by (simp add: cursor_inv_def dispatch_def timerTick_def useEffect_interval_def
      onClick_def disabled_def nextStep_def prevStep_def togglePlay_def initialState_def
      stepAt_def)

section \<open>Autoplay runs to the last step and stops one tick later\<close>

lemma ticks_add: "ticks steps (m + n) s = ticks steps n (ticks steps m s)"
  by (induction m arbitrary: s) simp_all

lemma ticks_stopped: "\<not> isPlaying s \<Longrightarrow> ticks steps n s = s"
  by (induction n) (simp_all add: timerTick_def useEffect_interval_def)

lemma ticks_advance:
  "isPlaying s \<Longrightarrow> currentStepIndex s + int n \<le> int (length steps) - 1
    \<Longrightarrow> ticks steps n s = s\<lparr>currentStepIndex := currentStepIndex s + int n\<rparr>"
proof (induction n arbitrary: s)
  case 0
  then show ?case by simp
next
  case (Suc n)
  have "timerTick steps s = s\<lparr>currentStepIndex := currentStepIndex s + 1\<rparr>"
    using Suc.prems by (simp add: timerTick_def useEffect_interval_def nextStep_def)
  moreover have "ticks steps n (s\<lparr>currentStepIndex := currentStepIndex s + 1\<rparr>)
      = s\<lparr>currentStepIndex := currentStepIndex s + 1 + int n\<rparr>"
    using Suc.IH [of "s\<lparr>currentStepIndex := currentStepIndex s + 1\<rparr>"] Suc.prems
    by simp
  ultimately show ?case by (simp add: add.assoc add.commute)
qed

lemma timerTick_last:
  "isPlaying s \<Longrightarrow> \<not> currentStepIndex s < int (length steps) - 1
    \<Longrightarrow> timerTick steps s = s\<lparr>isPlaying := False\<rparr>"
  by (simp add: timerTick_def useEffect_interval_def nextStep_def)

lemma ticks_to_last:
  assumes "isPlaying s" and "currentStepIndex s \<le> int (length steps) - 1"
  shows "ticks steps (nat (int (length steps) - 1 - currentStepIndex s)) s
           = s\<lparr>currentStepIndex := int (length steps) - 1\<rparr>"
  using ticks_advance [of s "nat (int (length steps) - 1 - currentStepIndex s)" steps] assms
  by simp

lemma ticks_past_last:
  assumes "isPlaying s" and "currentStepIndex s \<le> int (length steps) - 1"
  shows "ticks steps (nat (int (length steps) - 1 - currentStepIndex s) + 1 + m) s
           = \<lparr>currentStepIndex = int (length steps) - 1, isPlaying = False\<rparr>"
proof -
  let ?k = "nat (int (length steps) - 1 - currentStepIndex s)"
  let ?last = "s\<lparr>currentStepIndex := int (length steps) - 1\<rparr>"
  have "ticks steps (?k + (1 + m)) s = ticks steps (1 + m) ?last"
    using ticks_to_last [OF assms] by (simp only: ticks_add)
  also have "\<dots> = ticks steps m (timerTick steps ?last)"
    by simp
  also have "timerTick steps ?last = ?last\<lparr>isPlaying := False\<rparr>"
    using assms(1) by (intro timerTick_last) simp_all
  also have "ticks steps m (?last\<lparr>isPlaying := False\<rparr>) = ?last\<lparr>isPlaying := False\<rparr>"
    by (rule ticks_stopped) simp
  finally show ?thesis by (simp add: add.assoc)
qed

text \<open>
  The scenario of claim C1 as it is stated: five steps, cursor \<open>0\<close>, the play toggle,
  then four ticks. The fourth tick moves the cursor from \<open>3\<close> to \<open>4\<close> through the first
  branch of \<open>nextStep\<close>, which does not touch \<open>isPlaying\<close>; so the state after four
  ticks is still playing, not stopped.
\<close>

theorem autoplay_scenario_counterexample:
  "ticks ''abcde'' 4 (togglePlay initialState) = \<lparr>currentStepIndex = 4, isPlaying = True\<rparr>
   \<and> \<not> (currentStepIndex (ticks ''abcde'' 4 (togglePlay initialState)) = 4
         \<and> isPlaying (ticks ''abcde'' 4 (togglePlay initialState)) = False)"
  by (simp add: eval_nat_numeral timerTick_def useEffect_interval_def nextStep_def
      togglePlay_def initialState_def)

text \<open>
  Claim C1, amended. From a playing state with the cursor at or below the last index,
  the ticks that bring the cursor to the last index leave \<open>isPlaying\<close> true; the next
  tick, taken at the last index, clears \<open>isPlaying\<close> and keeps the cursor; after it no
  interval is armed and any number of further ticks changes nothing. In the scenario of
  five steps from cursor \<open>0\<close> after the play toggle: four ticks give cursor \<open>4\<close> still
  playing, the fifth gives cursor \<open>4\<close> stopped, and every later tick is a no-op.
\<close>

theorem autoplay_stops_one_tick_after_last_index:
  "(isPlaying s \<and> currentStepIndex s \<le> int (length steps) - 1 \<longrightarrow>
      ticks steps (nat (int (length steps) - 1 - currentStepIndex s)) s
        = \<lparr>currentStepIndex = int (length steps) - 1, isPlaying = True\<rparr>
      \<and> ticks steps (nat (int (length steps) - 1 - currentStepIndex s) + 1 + m) s
        = \<lparr>currentStepIndex = int (length steps) - 1, isPlaying = False\<rparr>
      \<and> useEffect_interval \<lparr>currentStepIndex = int (length steps) - 1, isPlaying = False\<rparr>
        = None)
   \<and> (length steps = 5 \<longrightarrow>
      ticks steps 4 (togglePlay initialState) = \<lparr>currentStepIndex = 4, isPlaying = True\<rparr>
      \<and> ticks steps 5 (togglePlay initialState) = \<lparr>currentStepIndex = 4, isPlaying = False\<rparr>
      \<and> ticks steps (5 + m) (togglePlay initialState)
        = \<lparr>currentStepIndex = 4, isPlaying = False\<rparr>)"
proof (intro conjI impI)
  assume a: "isPlaying s \<and> currentStepIndex s \<le> int (length steps) - 1"
  show "ticks steps (nat (int (length steps) - 1 - currentStepIndex s)) s
        = \<lparr>currentStepIndex = int (length steps) - 1, isPlaying = True\<rparr>"
    using a ticks_to_last [of s steps] by simp
  show "ticks steps (nat (int (length steps) - 1 - currentStepIndex s) + 1 + m) s
        = \<lparr>currentStepIndex = int (length steps) - 1, isPlaying = False\<rparr>"
    using a ticks_past_last [of s steps m] by simp
next
  show "useEffect_interval \<lparr>currentStepIndex = int (length steps) - 1, isPlaying = False\<rparr>
        = None"
    by (simp add: useEffect_interval_def)
next
  assume len: "length steps = 5"
  let ?s = "togglePlay initialState"
  have p: "isPlaying ?s" and c: "currentStepIndex ?s = 0"
    by (simp_all add: togglePlay_def initialState_def)
  have k: "nat (int (length steps) - 1 - currentStepIndex ?s) = 4"
    using len c by simp
  have le: "currentStepIndex ?s \<le> int (length steps) - 1"
    using len c by simp
  show "ticks steps 4 ?s = \<lparr>currentStepIndex = 4, isPlaying = True\<rparr>"
    using ticks_to_last [OF p le] k len by (simp add: togglePlay_def initialState_def)
  have past: "ticks steps (5 + n) ?s = \<lparr>currentStepIndex = 4, isPlaying = False\<rparr>" for n
  proof -
    have e: "nat (int (length steps) - 1 - currentStepIndex ?s) + 1 + n = 5 + n"
      using k by simp
    show ?thesis
      using ticks_past_last [OF p le, of n, unfolded e] by (simp add: len)
  qed
  show "ticks steps 5 ?s = \<lparr>currentStepIndex = 4, isPlaying = False\<rparr>"
    using past [of 0] by simp
  show "ticks steps (5 + m) ?s = \<lparr>currentStepIndex = 4, isPlaying = False\<rparr>"
    using past [of m] by simp
qed

theorem autoplay_stops_one_tick_after_last_index_witness:
  "isPlaying (togglePlay initialState)
   \<and> currentStepIndex (togglePlay initialState) \<le> int (length ''abcde'') - 1
   \<and> length ''abcde'' = 5
   \<and> ticks ''abcde'' 4 (togglePlay initialState) = \<lparr>currentStepIndex = 4, isPlaying = True\<rparr>
   \<and> ticks ''abcde'' 5 (togglePlay initialState) = \<lparr>currentStepIndex = 4, isPlaying = False\<rparr>
   \<and> ticks ''abcde'' 6 (togglePlay initialState) = \<lparr>currentStepIndex = 4, isPlaying = False\<rparr>"
  using autoplay_stops_one_tick_after_last_index [of "togglePlay initialState" "''abcde''" 1]
  by (simp add: togglePlay_def initialState_def)

section \<open>The rendered tree\<close>

lemma infoBlock_total: "\<exists>info. (infoBlock algorithm :: js_error + ('n, 'e) jsx) = Inr info"
proof (cases "truthy (selectedAlgo algorithm)")
  case True
  then show ?thesis
    by (cases "selectedAlgo algorithm") (simp_all add: infoBlock_def metadataBlock_def)
next
  case False
  then show ?thesis by (simp add: infoBlock_def)
qed

lemma render_view:
  "infoBlock algorithm = Inr info \<Longrightarrow>
   render algorithm steps target renderStep s =
     Inr (Element ''div''
           [Element ''h2'' [Text ''Visualization for '', Text algorithm],
            Element ''div'' [info],
            targetLine algorithm target,
            Element ''div''
              [Rendered (renderStep (stepAt steps (currentStepIndex s))
                           (currentStepIndex s) (length steps))],
            controls steps s])"
  by (simp add: render_def)

subsection \<open>Metadata or fallback prompt\<close>

text \<open>A name of the table gets the metadata block with its entry's strings.\<close>

lemma infoBlock_known:
  "map_of algorithmInfo algorithm = Some info \<Longrightarrow>
   infoBlock algorithm =
     Inr (Element ''div''
           [Element ''p'' [Text ''Description:''],
            Element ''p'' [Text (description info)],
            Element ''p'' [Text ''Time Complexity:''],
            Element ''p'' [Text (timeComplexity info)],
            Element ''p'' [Text ''Space Complexity:''],
            Element ''p'' [Text (spaceComplexity info)]])"
  by (simp add: infoBlock_def metadataBlock_def selectedAlgo_def)

text \<open>A name found neither in the table nor on the prototype gets the fallback prompt.\<close>

lemma infoBlock_unknown:
  "algorithm \<notin> set (map fst algorithmInfo) \<Longrightarrow> algorithm \<notin> set Object_prototype
    \<Longrightarrow> infoBlock algorithm = Inr fallbackPrompt"
  by (simp add: infoBlock_def selectedAlgo_def map_of_eq_None_iff [THEN iffD2])

lemma infoBlock_Unknown_Algo: "infoBlock ''Unknown Algo'' = Inr fallbackPrompt"
  by (rule infoBlock_unknown) (simp_all add: algorithmInfo_def Object_prototype_def)

text \<open>
  Claim C4, at the name \<open>constructor\<close>. The name is not a key of the table, yet the
  property read finds the function that every object inherits under that name. The
  value is truthy, so the component renders the metadata block, with three empty
  paragraphs where the description and the two complexities belong, and not the
  fallback prompt. The read does not fault.
\<close>

theorem constructor_renders_metadata_block:
  "map_of algorithmInfo ''constructor'' = None
   \<and> selectedAlgo ''constructor'' = Inherited
   \<and> render ''constructor'' steps target renderStep s =
       Inr (Element ''div''
             [Element ''h2'' [Text ''Visualization for '', Text ''constructor''],
              Element ''div''
                [Element ''div''
                  [Element ''p'' [Text ''Description:''],
                   Element ''p'' [Empty],
                   Element ''p'' [Text ''Time Complexity:''],
                   Element ''p'' [Empty],
                   Element ''p'' [Text ''Space Complexity:''],
                   Element ''p'' [Empty]]],
              Empty,
              Element ''div''
                [Rendered (renderStep (stepAt steps (currentStepIndex s))
                             (currentStepIndex s) (length steps))],
              controls steps s])
   \<and> infoBlock ''constructor'' \<noteq> (Inr fallbackPrompt :: js_error + ('n, 'e) jsx)"
  by (simp add: render_def infoBlock_def metadataBlock_def selectedAlgo_def
      algorithmInfo_def Object_prototype_def fallbackPrompt_def targetLine_def)

subsection \<open>The target line\<close>

lemma infoBlock_no_targetLine:
  "infoBlock algorithm = Inr info \<Longrightarrow> filter isTargetLine (nodes info) = []"
  by (cases "selectedAlgo algorithm")
    (auto simp add: infoBlock_def metadataBlock_def fallbackPrompt_def)

lemma targetLine_nodes:
  "filter isTargetLine (nodes (targetLine algorithm target)) =
     (if algorithm = ''Linear Search'' \<or> algorithm = ''Binary Search''
      then [Element ''p''
              [Text ''Target: '', (case target of Some t \<Rightarrow> Number t | None \<Rightarrow> Empty)]]
      else [])"
  by (cases target) (simp_all add: targetLine_def)

lemma controls_no_targetLine: "filter isTargetLine (nodes (controls steps s)) = []"
  by (simp add: controls_def)

lemma render_targetLines:
  "\<exists>view. render algorithm steps target renderStep s = Inr view
     \<and> filter isTargetLine (nodes view)
         = filter isTargetLine (nodes (targetLine algorithm target))"
proof -
  obtain info :: "('a, 'b) jsx" where i: "infoBlock algorithm = Inr info"
    using infoBlock_total by blast
  show ?thesis
    by (simp add: render_view [OF i] infoBlock_no_targetLine [OF i] controls_no_targetLine)
qed

text \<open>
  Claim C5. Rendering succeeds, and the rendered tree holds a target line exactly when
  the algorithm name is \<open>Linear Search\<close> or \<open>Binary Search\<close>, whatever the target.
\<close>

theorem target_line_iff_search:
  "\<exists>view. render algorithm steps target renderStep s = Inr view
     \<and> (list_ex isTargetLine (nodes view)
          \<longleftrightarrow> algorithm = ''Linear Search'' \<or> algorithm = ''Binary Search'')"
proof -
  obtain view where v: "render algorithm steps target renderStep s = Inr view"
    and f: "filter isTargetLine (nodes view)
         = filter isTargetLine (nodes (targetLine algorithm target))"
    using render_targetLines [of algorithm steps target renderStep s] by blast
  have "list_ex isTargetLine (nodes view) \<longleftrightarrow> filter isTargetLine (nodes view) \<noteq> []"
    by (simp add: list_ex_iff filter_empty_conv)
  then show ?thesis
    using v f by (simp add: targetLine_nodes)
qed

text \<open>
  Claim C9. For the two search algorithms the target line is rendered also when no
  target was passed: it is then the label \<open>Target: \<close> followed by an empty child.
\<close>

theorem target_line_without_target:
  "(\<exists>view. render ''Linear Search'' steps None renderStep s = Inr view
      \<and> filter isTargetLine (nodes view) = [Element ''p'' [Text ''Target: '', Empty]])
   \<and> (\<exists>view. render ''Binary Search'' steps None renderStep s = Inr view
      \<and> filter isTargetLine (nodes view) = [Element ''p'' [Text ''Target: '', Empty]])"
  using render_targetLines [of "''Linear Search''" steps None renderStep s]
    render_targetLines [of "''Binary Search''" steps None renderStep s]
  by (auto simp add: targetLine_nodes)

subsection \<open>The buttons\<close>

lemma buttonStates_Element:
  "buttonStates b (Element tag cs) = concat (map (buttonStates b) cs)"
  by (induction cs) (simp_all add: buttonStates_def)

lemma buttonStates_leaf:
  "buttonStates b (Text str) = []" "buttonStates b (Rendered e) = []"
  by (simp_all add: buttonStates_def)

lemma infoBlock_no_buttons:
  "infoBlock algorithm = Inr info \<Longrightarrow> buttonStates b info = []"
  by (cases "selectedAlgo algorithm")
    (auto simp add: infoBlock_def metadataBlock_def fallbackPrompt_def buttonStates_def)

lemma targetLine_no_buttons: "buttonStates b (targetLine algorithm target) = []"
  by (cases target) (simp_all add: targetLine_def buttonStates_def)

lemma controls_buttons: "buttonStates b (controls steps s) = [disabled steps b s]"
  by (cases b) (simp_all add: controls_def buttonStates_def disabled_def)

lemma render_buttons:
  "\<exists>view. render algorithm steps target renderStep s = Inr view
     \<and> buttonStates b view = [disabled steps b s]"
proof -
  obtain info :: "('a, 'b) jsx" where i: "infoBlock algorithm = Inr info"
    using infoBlock_total by blast
  have "buttonStates b (Element ''div''
           [Element ''h2'' [Text ''Visualization for '', Text algorithm],
            Element ''div'' [info],
            targetLine algorithm target,
            Element ''div''
              [Rendered (renderStep (stepAt steps (currentStepIndex s))
                           (currentStepIndex s) (length steps))],
            controls steps s]) = [disabled steps b s]"
    by (simp add: buttonStates_Element buttonStates_leaf infoBlock_no_buttons [OF i]
        targetLine_no_buttons controls_buttons)
  then show ?thesis by (simp add: render_view [OF i])
qed

text \<open>
  Claim C8. Every rendered tree has one Next button and one Previous button; the Next
  button is disabled exactly when the cursor equals \<open>length - 1\<close>, the Previous button
  exactly when the cursor is \<open>0\<close>. A click on either while it is disabled leaves the
  state as it was.
\<close>

theorem buttons_disabled_at_ends:
  "(\<exists>view. render algorithm steps target renderStep s = Inr view
      \<and> buttonStates NextButton view = [currentStepIndex s = int (length steps) - 1]
      \<and> buttonStates PreviousButton view = [currentStepIndex s = 0])
   \<and> (currentStepIndex s = int (length steps) - 1 \<longrightarrow>
        dispatch steps (Click NextButton) s = s)
   \<and> (currentStepIndex s = 0 \<longrightarrow> dispatch steps (Click PreviousButton) s = s)"
proof -
  obtain info :: "('a, 'b) jsx" where i: "infoBlock algorithm = Inr info"
    using infoBlock_total by blast
  obtain view where v: "render algorithm steps target renderStep s = Inr view"
    by (simp add: render_view [OF i])
  have "buttonStates NextButton view = [currentStepIndex s = int (length steps) - 1]"
    using render_buttons [of algorithm steps target renderStep s NextButton] v
    by (simp add: disabled_def)
  moreover have "buttonStates PreviousButton view = [currentStepIndex s = 0]"
    using render_buttons [of algorithm steps target renderStep s PreviousButton] v
    by (simp add: disabled_def)
  ultimately show ?thesis
    using v by (simp add: dispatch_def disabled_def)
qed

theorem buttons_disabled_at_ends_witness:
  "(\<exists>view. render ''Bubble Sort'' ''abc'' (Some (7::nat)) (\<lambda>st i n. (st, i, n))
         \<lparr>currentStepIndex = 2, isPlaying = True\<rparr> = Inr view
      \<and> buttonStates NextButton view = [True]
      \<and> buttonStates PreviousButton view = [False])
   \<and> (2::int) = int (length ''abc'') - 1
   \<and> dispatch ''abc'' (Click NextButton) \<lparr>currentStepIndex = 2, isPlaying = True\<rparr>
        = \<lparr>currentStepIndex = 2, isPlaying = True\<rparr>
   \<and> dispatch ''abc'' (Click PreviousButton) \<lparr>currentStepIndex = 0, isPlaying = True\<rparr>
        = \<lparr>currentStepIndex = 0, isPlaying = True\<rparr>"
  using buttons_disabled_at_ends [of "''Bubble Sort''" "''abc''" "Some (7::nat)"
      "\<lambda>st i n. (st, i, n)" "\<lparr>currentStepIndex = 2, isPlaying = True\<rparr>"]
    buttons_disabled_at_ends [of "''Bubble Sort''" "''abc''" "Some (7::nat)"
      "\<lambda>st i n. (st, i, n)" "\<lparr>currentStepIndex = 0, isPlaying = True\<rparr>"]
  by simp

end
